theory Spec2Isabelle
  imports Main
begin

section \<open>Values, errors and effects of the host language\<close>

text \<open>
  A prop or argument that the caller may leave out (\<open>undefined\<close>), pass as \<open>null\<close>, or
  supply. The source tests such values with \<open>x != null\<close>, with \<open>Boolean(x)\<close> and with the
  optional call \<open>x?.(...)\<close>; on the three shapes below the three tests agree.
\<close>

datatype 'a nullable = Undefined | Null | Val 'a

fun not_null :: "'a nullable \<Rightarrow> bool" where
  "not_null Undefined = False"
| "not_null Null = False"
| "not_null (Val v) = True"

fun Boolean :: "'a nullable \<Rightarrow> bool" where
  "Boolean Undefined = False"
| "Boolean Null = False"
| "Boolean (Val v) = True"

text \<open>
  A thrown exception is the \<open>Inl\<close> of a result: \<open>Error\<close> is \<open>new Error(message)\<close>,
  \<open>TypeError\<close> is what reading a property of \<open>undefined\<close> or calling a value that is not
  a function raises. A procedure with side effects takes the state it acts on and returns
  it together with its completion, so that what happened before a throw is kept.
\<close>

datatype error = Error string | TypeError

type_synonym 'w effect = "'w \<Rightarrow> (error + unit) \<times> 'w"

definition skip :: "'w effect" where
  "skip w = (Inr (), w)"

definition seq :: "'w effect \<Rightarrow> 'w effect \<Rightarrow> 'w effect" where
  "seq m k w = (case m w of (Inl e, w') \<Rightarrow> (Inl e, w') | (Inr u, w') \<Rightarrow> k w')"

section \<open>Toggle state, actions and the reducer\<close>

text \<open>
  The state object \<open>{on: boolean}\<close>. An action object has a \<open>type\<close> string and may carry
  an \<open>initialState\<close>; the field is absent (\<open>None\<close>) in \<open>{type: 'toggle'}\<close>. The payload
  type is a parameter: a state for the value reading of the reducer, an address for the
  reading with object identity. A state that is \<open>undefined\<close> is \<open>None\<close>.
\<close>

record toggle_state =
  on :: bool

record 'p action =
  type :: string
  initialState :: "'p option"

definition actionTypes_toggle :: string where
  "actionTypes_toggle = ''toggle''"

definition actionTypes_reset :: string where
  "actionTypes_reset = ''reset''"

definition toggleReducer ::
  "toggle_state option \<Rightarrow> toggle_state action \<Rightarrow> error + toggle_state option" where
  "toggleReducer state a =
     (if type a = actionTypes_toggle then
        (case state of
           None \<Rightarrow> Inl TypeError
         | Some s \<Rightarrow> Inr (Some \<lparr>on = \<not> on s\<rparr>))
      else if type a = actionTypes_reset then Inr (initialState a)
      else Inl (Error (''Unsupported type: '' @ type a)))"

text \<open>
  The same function with object identity: a state is an address into a heap of state
  objects, the object literal \<open>{on: !state.on}\<close> allocates a fresh object at the end of the
  heap, and \<open>return initialState\<close> hands back the address the action carries.
\<close>

type_synonym ref = nat

type_synonym heap = "toggle_state list"

definition toggleReducer_heap ::
  "heap \<Rightarrow> ref option \<Rightarrow> ref action \<Rightarrow> (error + ref option) \<times> heap" where
  "toggleReducer_heap h state a =
     (if type a = actionTypes_toggle then
        (case state of
           None \<Rightarrow> (Inl TypeError, h)
         | Some r \<Rightarrow> (Inr (Some (length h)), h @ [\<lparr>on = \<not> on (h ! r)\<rparr>]))
      else if type a = actionTypes_reset then (Inr (initialState a), h)
      else (Inl (Error (''Unsupported type: '' @ type a)), h))"

text \<open>Reading an address, and an action, back as values.\<close>

definition deref :: "heap \<Rightarrow> ref option \<Rightarrow> toggle_state option" where
  "deref h r = map_option (\<lambda>i. h ! i) r"

definition deref_action :: "heap \<Rightarrow> ref action \<Rightarrow> toggle_state action" where
  "deref_action h a = \<lparr>type = type a, initialState = deref h (initialState a)\<rparr>"

definition valid_ref :: "heap \<Rightarrow> ref option \<Rightarrow> bool" where
  "valid_ref h r = (case r of None \<Rightarrow> True | Some i \<Rightarrow> i < length h)"

section \<open>Diagnostics\<close>

text \<open>
  \<open>warning(condition, message)\<close> of the \<open>warning\<close> package reports the message when the
  condition is false; the result here is the list of messages reported.
\<close>

definition warning :: "bool \<Rightarrow> string \<Rightarrow> string list" where
  "warning condition message = (if condition then [] else [message])"

definition uncontrolledToControlled_message :: string where
  "uncontrolledToControlled_message =
     ''Warning: A component is changing from uncontrolled to controlled. Components should not switch from uncontrolled to controlled (or vice versa).''"

definition controlledToUncontrolled_message :: string where
  "controlledToUncontrolled_message =
     ''Warning: A component is changing from controlled to uncontrolled. Components should not switch from uncontrolled to controlled (or vice versa).''"

definition readOnly_message :: string where
  "readOnly_message =
     ''Warning: Failed prop type: You provided an `on` prop to a toggle without an `onChange` handler. This will render a read-only field. If the field should be mutable use `defaultValue`. Otherwise, set either `onChange` or `readOnly`.''"

text \<open>
  What React keeps for \<open>useControlledSwitchWarning\<close> between renders of one component:
  the cell of \<open>React.useRef\<close> and the dependency \<open>isControlled\<close> of the last render (the
  other dependency, the ref object itself, never changes). \<open>None\<close> is the first render:
  \<open>useRef(isControlled)\<close> then creates the cell from its argument, and the effect runs.
  On a later render the argument of \<open>useRef\<close> is ignored and the effect runs only when
  the dependency differs from the last render's. The source never assigns the cell.
\<close>

record switch_cell =
  isControlledRef :: bool
  switch_deps :: bool

definition useControlledSwitchWarning ::
  "'a nullable \<Rightarrow> switch_cell option \<Rightarrow> string list \<times> switch_cell" where
  "useControlledSwitchWarning controlPropValue cell =
     (let isControlled = not_null controlPropValue;
          isControlledRef_current =
            (case cell of None \<Rightarrow> isControlled | Some c \<Rightarrow> isControlledRef c);
          effect_runs =
            (case cell of None \<Rightarrow> True | Some c \<Rightarrow> switch_deps c \<noteq> isControlled);
          uncontrolledToControlled = (\<not> isControlledRef_current \<and> isControlled);
          controlledToUncontrolled = (isControlledRef_current \<and> \<not> isControlled)
      in ((if effect_runs
           then warning (\<not> uncontrolledToControlled) uncontrolledToControlled_message
              @ warning (\<not> controlledToUncontrolled) controlledToUncontrolled_message
           else []),
          \<lparr>isControlledRef = isControlledRef_current, switch_deps = isControlled\<rparr>))"

fun switch_warning_run ::
  "switch_cell option \<Rightarrow> 'a nullable list \<Rightarrow> string list list \<times> switch_cell option" where
  "switch_warning_run cell [] = ([], cell)"
| "switch_warning_run cell (v # vs) =
     (case useControlledSwitchWarning v cell of
        (msgs, c) \<Rightarrow>
          (case switch_warning_run (Some c) vs of (rest, cell') \<Rightarrow> (msgs # rest, cell')))"

text \<open>
  The ownership-mode-flip check as the specification words it, for comparison: it keeps
  the mode \<open>P\<close> of the previous evaluation, reports a flip from \<open>P\<close> to the current mode
  \<open>C\<close>, and then sets \<open>P := C\<close>. The history is seeded from the first configuration.
\<close>

definition spec_flip_check :: "bool \<Rightarrow> bool \<Rightarrow> string list \<times> bool" where
  "spec_flip_check P C =
     ((if \<not> P \<and> C then [uncontrolledToControlled_message] else [])
      @ (if P \<and> \<not> C then [controlledToUncontrolled_message] else []), C)"

fun spec_flip_from :: "bool \<Rightarrow> 'a nullable list \<Rightarrow> string list list" where
  "spec_flip_from P [] = []"
| "spec_flip_from P (v # vs) =
     (case spec_flip_check P (not_null v) of (msgs, P') \<Rightarrow> msgs # spec_flip_from P' vs)"

fun spec_flip_run :: "'a nullable list \<Rightarrow> string list list" where
  "spec_flip_run [] = []"
| "spec_flip_run (v # vs) = spec_flip_from (not_null v) (v # vs)"

text \<open>
  \<open>useOnChangeReadOnlyWarning\<close> keeps only the dependencies
  \<open>[hasOnChange, isControlled, readOnly]\<close> of the last render; \<open>None\<close> is the first render.
\<close>

definition useOnChangeReadOnlyWarning ::
  "'f nullable \<Rightarrow> 'a nullable \<Rightarrow> bool \<Rightarrow> (bool \<times> bool \<times> bool) option
     \<Rightarrow> string list \<times> (bool \<times> bool \<times> bool)" where
  "useOnChangeReadOnlyWarning onChangePropValue controlPropValue readOnly' deps =
     (let hasOnChange = Boolean onChangePropValue;
          isControlled = not_null controlPropValue;
          effect_runs = (deps \<noteq> Some (hasOnChange, isControlled, readOnly'));
          isReadOnly = (\<not> hasOnChange \<and> isControlled \<and> \<not> readOnly')
      in ((if effect_runs then warning (\<not> isReadOnly) readOnly_message else []),
          (hasOnChange, isControlled, readOnly')))"

section \<open>The hook\<close>

text \<open>
  The options object of \<open>useToggle\<close>. A default of the parameter list stands for an
  omitted option, so \<open>initialOn\<close>, \<open>reducer\<close> and \<open>readOnly\<close> always have a value;
  \<open>onChange\<close> and the control prop \<open>on\<close> (bound to \<open>controlledOn\<close>) have no default and
  are tested for \<open>null\<close> and \<open>undefined\<close> by the body. An \<open>onChange\<close> handler acts on the
  state \<open>'h\<close> of whoever supplied it.
\<close>

type_synonym reducer_fn =
  "toggle_state option \<Rightarrow> toggle_state action \<Rightarrow> error + toggle_state option"

record 'h props =
  initialOn :: bool
  reducer :: reducer_fn
  onChange :: "(toggle_state option \<Rightarrow> toggle_state action \<Rightarrow> 'h effect) nullable"
  controlledOn :: "bool nullable"
  readOnly :: bool

definition default_props :: "'h props" where
  "default_props =
     \<lparr>initialOn = False, reducer = toggleReducer, onChange = Undefined,
      controlledOn = Undefined, readOnly = False\<rparr>"

text \<open>
  What lives as long as the component: the object held by
  \<open>React.useRef({on: initialOn})\<close>, the state cell of \<open>React.useReducer\<close>, and the state of
  the host that supplied the handlers. The first render creates the first two from
  \<open>initialOn\<close>.
\<close>

record 'h world =
  initialState_ref :: toggle_state
  store :: "toggle_state option"
  host :: 'h

definition mount :: "'h props \<Rightarrow> 'h \<Rightarrow> 'h world" where
  "mount p h =
     \<lparr>initialState_ref = \<lparr>on = initialOn p\<rparr>, store = Some \<lparr>on = initialOn p\<rparr>, host = h\<rparr>"

text \<open>
  Modelled from the spec: \<open>React.useReducer\<close> is a library function outside the sources.
  Section 4.1 gives the store's \<open>apply\<close>: it invokes the transition function on the held
  state and the action and replaces the held state by the result; section 7 lets an error
  of the transition function surface to the caller, the state staying as it was.
\<close>

definition dispatch :: "reducer_fn \<Rightarrow> toggle_state action \<Rightarrow> 'h world effect" where
  "dispatch r a w =
     (case r (store w) a of
        Inl e \<Rightarrow> (Inl e, w)
      | Inr s \<Rightarrow> (Inr (), w\<lparr>store := s\<rparr>))"

definition on_host :: "'h effect \<Rightarrow> 'h world effect" where
  "on_host f w = (case f (host w) of (r, h) \<Rightarrow> (r, w\<lparr>host := h\<rparr>))"

definition onIsControlled :: "'h props \<Rightarrow> bool" where
  "onIsControlled p = not_null (controlledOn p)"

text \<open>
  Line 78, \<open>on = onIsControlled ? controlledOn : state.on\<close>, where \<open>state\<close> is the state
  the render read from the store.
\<close>

definition useToggle_on :: "'h props \<Rightarrow> toggle_state option \<Rightarrow> error + bool" where
  "useToggle_on p state =
     (case controlledOn p of
        Val b \<Rightarrow> Inr b
      | _ \<Rightarrow> (case state of None \<Rightarrow> Inl TypeError | Some s \<Rightarrow> Inr (on s)))"

text \<open>The object literal \<open>{...state, on}\<close>; spreading \<open>undefined\<close> adds nothing.\<close>

definition spread_on :: "toggle_state option \<Rightarrow> bool \<Rightarrow> toggle_state" where
  "spread_on state on' = (case state of None \<Rightarrow> \<lparr>on = on'\<rparr> | Some s \<Rightarrow> s\<lparr>on := on'\<rparr>)"

text \<open>
  The closures of one render, with the variables they capture as arguments: the options
  \<open>p\<close>, the \<open>state\<close> read by that render, and \<open>on'\<close>, the value of \<open>on\<close>. The optional call
  \<open>onChange?.(...)\<close> does not evaluate its arguments when \<open>onChange\<close> is \<open>null\<close> or
  \<open>undefined\<close>, so the reducer is not run then.
\<close>

definition dispatchWithOnChange ::
  "'h props \<Rightarrow> toggle_state option \<Rightarrow> bool \<Rightarrow> toggle_state action \<Rightarrow> 'h world effect" where
  "dispatchWithOnChange p state on' a =
     seq (if \<not> onIsControlled p then dispatch (reducer p) a else skip)
         (case onChange p of
            Val f \<Rightarrow>
              (\<lambda>w. case reducer p (Some (spread_on state on')) a of
                     Inl e \<Rightarrow> (Inl e, w)
                   | Inr s \<Rightarrow> on_host (f s a) w)
          | _ \<Rightarrow> skip)"

definition toggle_action :: "toggle_state action" where
  "toggle_action = \<lparr>type = actionTypes_toggle, initialState = None\<rparr>"

definition reset_action :: "toggle_state \<Rightarrow> toggle_state action" where
  "reset_action i = \<lparr>type = actionTypes_reset, initialState = Some i\<rparr>"

definition toggle :: "'h props \<Rightarrow> toggle_state option \<Rightarrow> bool \<Rightarrow> 'h world effect" where
  "toggle p state on' = dispatchWithOnChange p state on' toggle_action"

definition reset ::
  "'h props \<Rightarrow> toggle_state option \<Rightarrow> bool \<Rightarrow> toggle_state \<Rightarrow> 'h world effect" where
  "reset p state on' initialState' =
     dispatchWithOnChange p state on' (reset_action initialState')"

section \<open>Prop getters\<close>

text \<open>
  A property of a bundle is a boolean, a string, a function of the event arguments
  \<open>'a\<close>, or \<open>null\<close> or \<open>undefined\<close>. \<open>fn?.(...args)\<close> skips \<open>null\<close> and \<open>undefined\<close>,
  calls a function, and raises a \<open>TypeError\<close> on anything else; an exception ends the
  \<open>forEach\<close>.
\<close>

datatype ('a, 'w) jsval =
  VUndefined | VNull | VBool bool | VString string | VFun "'a \<Rightarrow> 'w effect"

fun callAll :: "('a, 'w) jsval list \<Rightarrow> 'a \<Rightarrow> 'w effect" where
  "callAll [] args = skip"
| "callAll (VUndefined # fns) args = callAll fns args"
| "callAll (VNull # fns) args = callAll fns args"
| "callAll (VFun fn # fns) args = seq (fn args) (callAll fns args)"
| "callAll (v # fns) args = (\<lambda>w. (Inl TypeError, w))"

text \<open>
  The parameter \<open>{onClick, ...props} = {}\<close>: a missing argument is the empty object, a
  missing key \<open>onClick\<close> is \<open>undefined\<close>, and \<open>props\<close> holds every other key. In the
  result a later key replaces an earlier one.
\<close>

type_synonym ('a, 'w) prop_bundle = "string \<rightharpoonup> ('a, 'w) jsval"

definition onClick_of :: "('a, 'w) prop_bundle \<Rightarrow> ('a, 'w) jsval" where
  "onClick_of overrides =
     (case overrides ''onClick'' of None \<Rightarrow> VUndefined | Some v \<Rightarrow> v)"

definition rest_props :: "('a, 'w) prop_bundle \<Rightarrow> ('a, 'w) prop_bundle" where
  "rest_props overrides = overrides |` (- {''onClick''})"

definition getTogglerProps ::
  "'h props \<Rightarrow> toggle_state option \<Rightarrow> bool \<Rightarrow> ('a, 'h world) prop_bundle option
     \<Rightarrow> ('a, 'h world) prop_bundle" where
  "getTogglerProps p state on' arg =
     (let overrides = (case arg of None \<Rightarrow> Map.empty | Some b \<Rightarrow> b);
          onClick = onClick_of overrides;
          props = rest_props overrides
      in [''aria-pressed'' \<mapsto> VBool on',
          ''onClick'' \<mapsto> VFun (callAll [onClick, VFun (\<lambda>args. toggle p state on')])]
         ++ props)"

definition getResetterProps ::
  "'h props \<Rightarrow> toggle_state option \<Rightarrow> bool \<Rightarrow> toggle_state \<Rightarrow> ('a, 'h world) prop_bundle option
     \<Rightarrow> ('a, 'h world) prop_bundle" where
  "getResetterProps p state on' initialState' arg =
     (let overrides = (case arg of None \<Rightarrow> Map.empty | Some b \<Rightarrow> b);
          onClick = onClick_of overrides;
          props = rest_props overrides
      in [''onClick'' \<mapsto> VFun (callAll [onClick, VFun (\<lambda>args. reset p state on' initialState')])]
         ++ props)"

text \<open>
  One render of \<open>useToggle\<close>: it reads the store, computes \<open>on\<close>, and returns \<open>on\<close> with
  the closures. The two warning hooks run only outside production builds.
\<close>

record ('a, 'h) toggle_hook =
  hook_on :: bool
  hook_reset :: "'h world effect"
  hook_toggle :: "'h world effect"
  hook_getTogglerProps :: "('a, 'h world) prop_bundle option \<Rightarrow> ('a, 'h world) prop_bundle"
  hook_getResetterProps :: "('a, 'h world) prop_bundle option \<Rightarrow> ('a, 'h world) prop_bundle"

definition useToggle :: "'h props \<Rightarrow> 'h world \<Rightarrow> error + ('a, 'h) toggle_hook" where
  "useToggle p w =
     (let initialState' = initialState_ref w;
          state = store w
      in case useToggle_on p state of
           Inl e \<Rightarrow> Inl e
         | Inr on' \<Rightarrow>
             Inr \<lparr>hook_on = on',
                  hook_reset = reset p state on' initialState',
                  hook_toggle = toggle p state on',
                  hook_getTogglerProps = getTogglerProps p state on',
                  hook_getResetterProps = getResetterProps p state on' initialState'\<rparr>)"

type_synonym warning_cells = "switch_cell option \<times> (bool \<times> bool \<times> bool) option"

definition useToggle_warnings ::
  "bool \<Rightarrow> 'h props \<Rightarrow> warning_cells \<Rightarrow> string list \<times> warning_cells" where
  "useToggle_warnings production p cells =
     (if production then ([], cells)
      else
        (case useControlledSwitchWarning (controlledOn p) (fst cells) of
           (msgs1, c1) \<Rightarrow>
             (case useOnChangeReadOnlyWarning (onChange p) (controlledOn p) (readOnly p)
                     (snd cells) of
                (msgs2, c2) \<Rightarrow> (msgs1 @ msgs2, (Some c1, Some c2)))))"

text \<open>A sink that records each call it receives, in order.\<close>

definition recorder ::
  "toggle_state option \<Rightarrow> toggle_state action
     \<Rightarrow> (toggle_state option \<times> toggle_state action) list effect" where
  "recorder s a calls = (Inr (), calls @ [(s, a)])"

text \<open>
  A reducer a caller may pass as the \<open>reducer\<close> option: it returns the state it is
  given, whatever the action.
\<close>

definition keep_state :: reducer_fn where
  "keep_state state a = Inr state"

text \<open>
  A call of the reducer returns a new object when its result is an address that the heap
  before the call does not hold.
\<close>

definition returns_new :: "heap \<Rightarrow> error + ref option \<Rightarrow> bool" where
  "returns_new h r = (case r of Inr (Some i) \<Rightarrow> length h \<le> i | _ \<Rightarrow> False)"

section \<open>The reducer\<close>

lemma actionTypes_distinct: "actionTypes_toggle \<noteq> actionTypes_reset"
  by (simp add: actionTypes_toggle_def actionTypes_reset_def)

text \<open>
  C4: for every state \<open>s\<close>, the transition function returns \<open>{on: !s.on}\<close> on an
  action of type \<open>toggle\<close>; on an action of type \<open>reset\<close> it returns the action's
  \<open>initialState\<close> as it is, whatever the state; on every other type it throws the
  unsupported-type error, which is its result (nothing in it catches the error).
\<close>

theorem toggleReducer_cases:
  "(type a = actionTypes_toggle \<longrightarrow>
      toggleReducer (Some s) a = Inr (Some \<lparr>on = \<not> on s\<rparr>))
   \<and> (type a = actionTypes_reset \<longrightarrow> toggleReducer state a = Inr (initialState a))
   \<and> (type a \<noteq> actionTypes_toggle \<longrightarrow> type a \<noteq> actionTypes_reset \<longrightarrow>
        toggleReducer state a = Inl (Error (''Unsupported type: '' @ type a)))"
  by (simp add: toggleReducer_def actionTypes_distinct [symmetric])

theorem toggleReducer_cases_witness:
  "toggleReducer (Some \<lparr>on = False\<rparr>) \<lparr>type = ''toggle'', initialState = None\<rparr>
     = Inr (Some \<lparr>on = True\<rparr>)
   \<and> toggleReducer (Some \<lparr>on = True\<rparr>)
         \<lparr>type = ''reset'', initialState = Some \<lparr>on = False\<rparr>\<rparr>
     = Inr (Some \<lparr>on = False\<rparr>)
   \<and> toggleReducer (Some \<lparr>on = True\<rparr>) \<lparr>type = ''flip'', initialState = None\<rparr>
     = Inl (Error ''Unsupported type: flip'')"
  using toggleReducer_cases [of "\<lparr>type = ''toggle'', initialState = None\<rparr>" "\<lparr>on = False\<rparr>"]
    toggleReducer_cases [of "\<lparr>type = ''reset'', initialState = Some \<lparr>on = False\<rparr>\<rparr>"
      _ "Some \<lparr>on = True\<rparr>"]
    toggleReducer_cases [of "\<lparr>type = ''flip'', initialState = None\<rparr>"
      _ "Some \<lparr>on = True\<rparr>"]
  by (simp add: actionTypes_toggle_def actionTypes_reset_def)

text \<open>
  C8: for every state \<open>s\<close> and every initial state \<open>i\<close>, the transition on the toggle
  action succeeds, and the transition on the reset action carrying \<open>i\<close>, applied to its
  result, returns exactly \<open>i\<close>.
\<close>

theorem reset_after_toggle:
  "(case toggleReducer (Some s) toggle_action of
      Inl e \<Rightarrow> Inl e
    | Inr s' \<Rightarrow> toggleReducer s' (reset_action i)) = Inr (Some i)"
  by (simp add: toggleReducer_def toggle_action_def reset_action_def
      actionTypes_distinct [symmetric])

text \<open>
  C7, as worded, fails for the reset action: the reducer returns the address it finds in
  the action, here the address of the state itself, and allocates nothing.
\<close>

theorem toggleReducer_heap_counterexample:
  "toggleReducer_heap [\<lparr>on = False\<rparr>] (Some 0) \<lparr>type = actionTypes_reset, initialState = Some 0\<rparr>
     = (Inr (Some 0), [\<lparr>on = False\<rparr>])
   \<and> \<not> returns_new [\<lparr>on = False\<rparr>]
         (fst (toggleReducer_heap [\<lparr>on = False\<rparr>] (Some 0)
                 \<lparr>type = actionTypes_reset, initialState = Some 0\<rparr>))"
  by (simp add: toggleReducer_heap_def returns_new_def actionTypes_distinct [symmetric])

text \<open>
  C7 (amended): for every state \<open>s\<close> that is an object of the heap and every action,
  the transition function never changes an object that is already in the heap, so it
  does not mutate \<open>s\<close>; the content of its result is the value-level
  transition of the contents of its inputs; calling it a second time with the same inputs
  gives a result with equal content (or the same error). On a toggle action the result is
  a newly allocated object; on a reset action it is the \<open>initialState\<close> object of the
  action itself, not a new one, and nothing is allocated.
\<close>

theorem toggleReducer_heap_pure:
  assumes "valid_ref h state"
    and "toggleReducer_heap h state a = (r1, h1)"
    and "toggleReducer_heap h1 state a = (r2, h2)"
  shows "take (length h) h1 = h
    \<and> map_sum id (deref h1) r1 = toggleReducer (deref h state) (deref_action h a)
    \<and> map_sum id (deref h2) r2 = map_sum id (deref h1) r1
    \<and> (type a = actionTypes_toggle \<longrightarrow> state \<noteq> None \<longrightarrow> returns_new h r1)
    \<and> (type a = actionTypes_reset \<longrightarrow> r1 = Inr (initialState a) \<and> h1 = h)"
proof -
  consider (toggle) "type a = actionTypes_toggle"
    | (reset) "type a = actionTypes_reset"
    | (other) "type a \<noteq> actionTypes_toggle" "type a \<noteq> actionTypes_reset"
    by blast
  then show ?thesis
  proof cases
    case toggle
    then have "type a \<noteq> actionTypes_reset"
      using actionTypes_distinct by simp
    with toggle assms show ?thesis
      by (cases state)
         (auto simp add: toggleReducer_heap_def toggleReducer_def deref_def deref_action_def
          valid_ref_def returns_new_def nth_append)
  next
    case reset
    then have "type a \<noteq> actionTypes_toggle"
      using actionTypes_distinct by simp
    with reset assms show ?thesis
      by (cases "initialState a")
         (auto simp add: toggleReducer_heap_def toggleReducer_def deref_def deref_action_def)
  next
    case other
    with assms show ?thesis
      by (auto simp add: toggleReducer_heap_def toggleReducer_def deref_def deref_action_def)
  qed
qed

theorem toggleReducer_heap_pure_witness:
  "valid_ref [\<lparr>on = False\<rparr>] (Some 0)
   \<and> toggleReducer_heap [\<lparr>on = False\<rparr>] (Some 0) \<lparr>type = ''toggle'', initialState = None\<rparr>
       = (Inr (Some 1), [\<lparr>on = False\<rparr>, \<lparr>on = True\<rparr>])
   \<and> take 1 [\<lparr>on = False\<rparr>, \<lparr>on = True\<rparr>] = [\<lparr>on = False\<rparr>]
   \<and> returns_new [\<lparr>on = False\<rparr>] (Inr (Some 1))
   \<and> map_sum id (deref [\<lparr>on = False\<rparr>, \<lparr>on = True\<rparr>, \<lparr>on = True\<rparr>]) (Inr (Some 2))
       = (map_sum id (deref [\<lparr>on = False\<rparr>, \<lparr>on = True\<rparr>]) (Inr (Some 1))
            :: error + toggle_state option)"
  using toggleReducer_heap_pure [of "[\<lparr>on = False\<rparr>]" "Some 0"
      "\<lparr>type = ''toggle'', initialState = None\<rparr>"
      "Inr (Some 1)" "[\<lparr>on = False\<rparr>, \<lparr>on = True\<rparr>]"
      "Inr (Some 2)" "[\<lparr>on = False\<rparr>, \<lparr>on = True\<rparr>, \<lparr>on = True\<rparr>]"]
  by (simp add: valid_ref_def toggleReducer_heap_def actionTypes_toggle_def)

section \<open>Ownership and the effective state\<close>

lemma spread_on_eq: "spread_on state v = \<lparr>on = v\<rparr>"
  by (simp add: spread_on_def split: option.splits)

lemma useToggle_on_uncontrolled:
  "\<not> onIsControlled p \<Longrightarrow> useToggle_on p state = Inr e \<Longrightarrow> state = Some \<lparr>on = e\<rparr>"
  by (cases "controlledOn p"; cases state)
     (auto simp add: useToggle_on_def onIsControlled_def)

lemma useToggle_on_controlled:
  "controlledOn p = Val b \<Longrightarrow> useToggle_on p state = Inr e \<Longrightarrow> e = b"
  by (simp add: useToggle_on_def)

text \<open>
  C5: the value \<open>on\<close> returned by a render is the control prop when one is supplied,
  whatever the store holds, and is the \<open>on\<close> field of the store's state when none is
  supplied; which of the two applies is decided by the control prop alone.
\<close>

theorem effective_state:
  "(controlledOn p = Val b \<longrightarrow>
      (\<exists>h. (useToggle p w :: error + ('a, 'h) toggle_hook) = Inr h \<and> hook_on h = b))
   \<and> (\<not> onIsControlled p \<longrightarrow> store w = Some s \<longrightarrow>
      (\<exists>h. (useToggle p w :: error + ('a, 'h) toggle_hook) = Inr h \<and> hook_on h = on s))
   \<and> (onIsControlled p \<longleftrightarrow> (\<exists>b. controlledOn p = Val b))"
  by (cases "controlledOn p") (simp_all add: useToggle_def useToggle_on_def onIsControlled_def Let_def)

theorem effective_state_witness:
  "(\<exists>h. (useToggle (default_props\<lparr>controlledOn := Val True\<rparr>) (mount default_props ())
           :: error + (unit, unit) toggle_hook) = Inr h \<and> hook_on h = True)
   \<and> (\<exists>h. (useToggle (default_props\<lparr>initialOn := True\<rparr>) (mount (default_props\<lparr>initialOn := True\<rparr>) ())
           :: error + (unit, unit) toggle_hook) = Inr h \<and> hook_on h = True)
   \<and> (\<exists>h. (useToggle default_props (mount default_props ())
           :: error + (unit, unit) toggle_hook) = Inr h \<and> hook_on h = False)"
  using effective_state [where ?'a = unit, of "default_props\<lparr>controlledOn := Val True\<rparr>" True "mount default_props ()"]
    effective_state [where ?'a = unit, of "default_props\<lparr>initialOn := True\<rparr>" _ "mount (default_props\<lparr>initialOn := True\<rparr>) ()" "\<lparr>on = True\<rparr>"]
    effective_state [where ?'a = unit, of "default_props" _ "mount default_props ()" "\<lparr>on = False\<rparr>"]
  by (simp add: default_props_def mount_def onIsControlled_def)

text \<open>
  C10: a control prop \<open>false\<close> is external ownership: \<open>on\<close> is \<open>false\<close> whatever the store
  holds, and \<open>dispatchWithOnChange\<close> leaves the store as it was, for every action. A control
  prop \<open>null\<close> is internal ownership, and the hook and its warnings are the same functions
  as with the prop left out.
\<close>

theorem ownership_non_nullish:
  "(controlledOn p = Val False \<longrightarrow>
      onIsControlled p \<and> useToggle_on p state = Inr False
      \<and> store (snd (dispatchWithOnChange p state False a w)) = store w)
   \<and> \<not> onIsControlled (p\<lparr>controlledOn := Null\<rparr>)
   \<and> useToggle (p\<lparr>controlledOn := Null\<rparr>) = useToggle (p\<lparr>controlledOn := Undefined\<rparr>)
   \<and> useToggle_warnings production (p\<lparr>controlledOn := Null\<rparr>)
       = useToggle_warnings production (p\<lparr>controlledOn := Undefined\<rparr>)"
proof -
  have "controlledOn p = Val False \<Longrightarrow>
      store (snd (dispatchWithOnChange p state False a w)) = store w"
    by (simp add: dispatchWithOnChange_def onIsControlled_def seq_def skip_def on_host_def
        split: nullable.splits sum.splits prod.splits)
  moreover have d: "dispatchWithOnChange (p\<lparr>controlledOn := Null\<rparr>)
      = dispatchWithOnChange (p\<lparr>controlledOn := Undefined\<rparr>)"
    by (simp add: fun_eq_iff dispatchWithOnChange_def onIsControlled_def
        split: nullable.splits)
  have u: "useToggle_on (p\<lparr>controlledOn := Null\<rparr>)
      = useToggle_on (p\<lparr>controlledOn := Undefined\<rparr>)"
    by (simp add: fun_eq_iff useToggle_on_def)
  have t: "toggle (p\<lparr>controlledOn := Null\<rparr>) = toggle (p\<lparr>controlledOn := Undefined\<rparr>)"
    by (simp add: fun_eq_iff toggle_def d)
  have r: "reset (p\<lparr>controlledOn := Null\<rparr>) = reset (p\<lparr>controlledOn := Undefined\<rparr>)"
    by (simp add: fun_eq_iff reset_def d)
  have "useToggle (p\<lparr>controlledOn := Null\<rparr>) = useToggle (p\<lparr>controlledOn := Undefined\<rparr>)"
    unfolding fun_eq_iff useToggle_def getTogglerProps_def getResetterProps_def t r u
    by simp
  moreover have "useToggle_warnings production (p\<lparr>controlledOn := Null\<rparr>)
       = useToggle_warnings production (p\<lparr>controlledOn := Undefined\<rparr>)"
    by (simp add: fun_eq_iff useToggle_warnings_def useControlledSwitchWarning_def
        useOnChangeReadOnlyWarning_def)
  ultimately show ?thesis
    by (simp add: onIsControlled_def useToggle_on_def)
qed

theorem ownership_non_nullish_witness:
  "onIsControlled (default_props\<lparr>controlledOn := Val False\<rparr> :: unit props)
   \<and> useToggle_on (default_props\<lparr>controlledOn := Val False\<rparr> :: unit props)
         (Some \<lparr>on = True\<rparr>) = Inr False
   \<and> store (snd (dispatchWithOnChange (default_props\<lparr>controlledOn := Val False\<rparr>)
         (Some \<lparr>on = True\<rparr>) False toggle_action (mount (default_props\<lparr>initialOn := True\<rparr>) ())))
       = Some \<lparr>on = True\<rparr>"
proof -
  let ?p = "default_props\<lparr>controlledOn := Val False\<rparr> :: unit props"
  let ?w = "mount (default_props\<lparr>initialOn := True\<rparr>) ()"
  have c: "controlledOn ?p = Val False"
    by simp
  have "onIsControlled ?p \<and> useToggle_on ?p (Some \<lparr>on = True\<rparr>) = Inr False
    \<and> store (snd (dispatchWithOnChange ?p (Some \<lparr>on = True\<rparr>) False toggle_action ?w))
      = store ?w"
    by (rule ownership_non_nullish [THEN conjunct1, rule_format, OF c])
  then show ?thesis
    by (simp add: mount_def default_props_def)
qed

section \<open>Dispatch and the suggested state\<close>

text \<open>
  C1, as worded, fails for a configuration whose \<open>reducer\<close> option is not the built-in
  one: with a reducer that keeps the state, \<open>toggle()\<close> under the control prop \<open>true\<close>
  hands \<open>{on: true}\<close> to \<open>onChange\<close>, not \<open>{on: false}\<close>.
\<close>

theorem toggle_controlled_counterexample:
  "toggle \<lparr>initialOn = False, reducer = keep_state, onChange = Val recorder,
           controlledOn = Val True, readOnly = False\<rparr>
     (Some \<lparr>on = False\<rparr>) True
     \<lparr>initialState_ref = \<lparr>on = False\<rparr>, store = Some \<lparr>on = False\<rparr>, host = []\<rparr>
   = (Inr (),
      \<lparr>initialState_ref = \<lparr>on = False\<rparr>, store = Some \<lparr>on = False\<rparr>,
       host = [(Some \<lparr>on = True\<rparr>, toggle_action)]\<rparr>)
   \<and> (Some \<lparr>on = True\<rparr>, toggle_action) \<noteq> (Some \<lparr>on = False\<rparr>, toggle_action)"
  by (simp add: toggle_def dispatchWithOnChange_def onIsControlled_def seq_def skip_def
      keep_state_def on_host_def recorder_def spread_on_eq)

text \<open>
  C1 (amended): for every configuration with the control prop \<open>true\<close>, an \<open>onChange\<close>
  handler and the built-in reducer, \<open>on\<close> is \<open>true\<close>, and all that \<open>toggle()\<close> does is one
  call of \<open>onChange\<close> with \<open>{on: false}\<close> and the toggle action; the store is left as it
  was.
\<close>

theorem toggle_controlled:
  assumes "controlledOn p = Val True" and "onChange p = Val f"
    and "reducer p = toggleReducer"
  shows "useToggle_on p state = Inr True
    \<and> toggle p state True w = on_host (f (Some \<lparr>on = False\<rparr>) toggle_action) w
    \<and> store (snd (toggle p state True w)) = store w"
  using assms
  by (simp add: useToggle_on_def toggle_def dispatchWithOnChange_def onIsControlled_def
      seq_def skip_def on_host_def spread_on_eq toggleReducer_def toggle_action_def
      split: prod.splits)

theorem toggle_controlled_witness:
  "toggle \<lparr>initialOn = False, reducer = toggleReducer, onChange = Val recorder,
           controlledOn = Val True, readOnly = False\<rparr>
     (Some \<lparr>on = False\<rparr>) True
     \<lparr>initialState_ref = \<lparr>on = False\<rparr>, store = Some \<lparr>on = False\<rparr>, host = []\<rparr>
   = (Inr (),
      \<lparr>initialState_ref = \<lparr>on = False\<rparr>, store = Some \<lparr>on = False\<rparr>,
       host = [(Some \<lparr>on = False\<rparr>, toggle_action)]\<rparr>)"
  using toggle_controlled [of "\<lparr>initialOn = False, reducer = toggleReducer, onChange = Val recorder,
           controlledOn = Val True, readOnly = False\<rparr>" recorder "Some \<lparr>on = False\<rparr>"
           "\<lparr>initialState_ref = \<lparr>on = False\<rparr>, store = Some \<lparr>on = False\<rparr>, host = []\<rparr>"]
  by (simp add: on_host_def recorder_def)

text \<open>
  C2: for every configuration with an \<open>onChange\<close> handler and every action, let \<open>e\<close> be
  the value \<open>on\<close> of the render: the control prop when it is supplied, the \<open>on\<close> field of
  the store's state otherwise. When the configured reducer returns \<open>s\<close> on \<open>{on: e}\<close> and
  the action, \<open>onChange\<close> is called once, with \<open>s\<close> and the action; when it throws,
  \<open>onChange\<close> is not called and the error reaches the caller. The state held by the
  store enters only through \<open>e\<close>.
\<close>

theorem suggested_from_effective_state:
  assumes "onChange p = Val f" and "useToggle_on p (store w) = Inr e"
  shows "(case controlledOn p of Val b \<Rightarrow> e = b | _ \<Rightarrow> store w = Some \<lparr>on = e\<rparr>)
    \<and> (case reducer p (Some \<lparr>on = e\<rparr>) a of
         Inr s \<Rightarrow>
           (fst (dispatchWithOnChange p (store w) e a w),
            host (snd (dispatchWithOnChange p (store w) e a w))) = f s a (host w)
       | Inl x \<Rightarrow>
           fst (dispatchWithOnChange p (store w) e a w) = Inl x
           \<and> host (snd (dispatchWithOnChange p (store w) e a w)) = host w)"
proof (cases "onIsControlled p")
  case True
  then obtain b where b: "controlledOn p = Val b"
    by (cases "controlledOn p") (simp_all add: onIsControlled_def)
  with assms(2) have "e = b"
    by (simp add: useToggle_on_controlled)
  with b True assms(1) show ?thesis
    by (simp add: dispatchWithOnChange_def seq_def skip_def on_host_def spread_on_eq
        split: prod.splits sum.splits)
next
  case False
  from False assms(2) have st: "store w = Some \<lparr>on = e\<rparr>"
    by (rule useToggle_on_uncontrolled)
  from False have "controlledOn p = Undefined \<or> controlledOn p = Null"
    by (cases "controlledOn p") (simp_all add: onIsControlled_def)
  with False assms(1) st show ?thesis
    by (auto simp add: dispatchWithOnChange_def seq_def skip_def on_host_def spread_on_eq
        dispatch_def split: prod.splits sum.splits)
qed

theorem suggested_from_effective_state_witness:
  "dispatchWithOnChange
     \<lparr>initialOn = False, reducer = toggleReducer, onChange = Val recorder,
      controlledOn = Val False, readOnly = False\<rparr>
     (Some \<lparr>on = True\<rparr>) False toggle_action
     \<lparr>initialState_ref = \<lparr>on = True\<rparr>, store = Some \<lparr>on = True\<rparr>, host = []\<rparr>
   = (Inr (),
      \<lparr>initialState_ref = \<lparr>on = True\<rparr>, store = Some \<lparr>on = True\<rparr>,
       host = [(Some \<lparr>on = True\<rparr>, toggle_action)]\<rparr>)"
proof -
  let ?p = "\<lparr>initialOn = False, reducer = toggleReducer, onChange = Val recorder,
      controlledOn = Val False, readOnly = False\<rparr>"
  let ?w = "\<lparr>initialState_ref = \<lparr>on = True\<rparr>, store = Some \<lparr>on = True\<rparr>,
      host = [] :: (toggle_state option \<times> toggle_state action) list\<rparr>"
  have 1: "onChange ?p = Val recorder"
    by simp
  have 2: "useToggle_on ?p (store ?w) = Inr False"
    by (simp add: useToggle_on_def)
  have 3: "reducer ?p (Some \<lparr>on = False\<rparr>) toggle_action = Inr (Some \<lparr>on = True\<rparr>)"
    by (simp add: toggleReducer_def toggle_action_def)
  have 4: "store (snd (dispatchWithOnChange ?p (store ?w) False toggle_action ?w)) = store ?w"
    "initialState_ref (snd (dispatchWithOnChange ?p (store ?w) False toggle_action ?w))
       = initialState_ref ?w"
    by (simp_all add: dispatchWithOnChange_def onIsControlled_def seq_def skip_def on_host_def
        split: sum.splits prod.splits)
  from suggested_from_effective_state [OF 1 2, of toggle_action] 3
  have "fst (dispatchWithOnChange ?p (store ?w) False toggle_action ?w) = Inr ()"
    "host (snd (dispatchWithOnChange ?p (store ?w) False toggle_action ?w))
       = [(Some \<lparr>on = True\<rparr>, toggle_action)]"
    by (simp_all add: recorder_def)
  with 4 show ?thesis
    by (cases "dispatchWithOnChange ?p (store ?w) False toggle_action ?w") auto
qed

section \<open>The toggler props\<close>

lemma seq_skip: "seq m skip = m"
  by (rule ext) (simp add: seq_def skip_def split: prod.splits sum.splits)

text \<open>
  C9: for every overrides object, the bundle of \<open>getTogglerProps\<close> holds \<open>aria-pressed\<close>
  equal to \<open>on\<close> unless the overrides have that key; every key of the overrides other
  than \<open>onClick\<close> keeps the caller's value; and \<open>onClick\<close> is a function that runs the
  caller's \<open>onClick\<close> on the arguments and, once that has returned, \<open>toggle\<close>, or
  \<open>toggle\<close> alone when the caller's \<open>onClick\<close> is missing, \<open>undefined\<close> or \<open>null\<close>. A call
  without an argument is a call with the empty object.
\<close>

theorem getTogglerProps_bundle:
  "(''aria-pressed'' \<notin> dom overrides \<longrightarrow>
      getTogglerProps p state on' (Some overrides) ''aria-pressed'' = Some (VBool on'))
   \<and> (\<forall>k. k \<noteq> ''onClick'' \<longrightarrow> k \<in> dom overrides \<longrightarrow>
        getTogglerProps p state on' (Some overrides) k = overrides k)
   \<and> (\<exists>g. getTogglerProps p state on' (Some overrides) ''onClick'' = Some (VFun g)
        \<and> (\<forall>f args. overrides ''onClick'' = Some (VFun f) \<longrightarrow>
              g args = seq (f args) (toggle p state on'))
        \<and> (overrides ''onClick'' \<in> {None, Some VUndefined, Some VNull} \<longrightarrow>
              (\<forall>args. g args = toggle p state on')))
   \<and> getTogglerProps p state on' None = getTogglerProps p state on' (Some Map.empty)"
  by (auto simp add: getTogglerProps_def onClick_of_def rest_props_def map_add_def
      restrict_map_def seq_skip dom_def split: option.splits)

theorem getTogglerProps_bundle_witness:
  "getTogglerProps (default_props :: unit props) (Some \<lparr>on = False\<rparr>) False
     (Some [''aria-label'' \<mapsto> VString ''custom-button'', ''onClick'' \<mapsto> VFun (\<lambda>args :: unit. skip)])
     ''aria-pressed'' = Some (VBool False)
   \<and> getTogglerProps (default_props :: unit props) (Some \<lparr>on = False\<rparr>) False
     (Some [''aria-label'' \<mapsto> VString ''custom-button'', ''onClick'' \<mapsto> VFun (\<lambda>args :: unit. skip)])
     ''aria-label'' = Some (VString ''custom-button'')"
proof -
  let ?o = "[''aria-label'' \<mapsto> VString ''custom-button'',
             ''onClick'' \<mapsto> VFun (\<lambda>args :: unit. skip)]
            :: (unit, unit world) prop_bundle"
  have 1: "''aria-pressed'' \<notin> dom ?o"
    by simp
  have 2: "''aria-label'' \<noteq> ''onClick''" "''aria-label'' \<in> dom ?o"
    by simp_all
  note t = getTogglerProps_bundle [of ?o "default_props :: unit props" "Some \<lparr>on = False\<rparr>" False]
  from t [THEN conjunct1, rule_format, OF 1]
    t [THEN conjunct2, THEN conjunct1, rule_format, OF 2]
  show ?thesis
    by simp
qed

section \<open>The warnings\<close>

text \<open>
  C3, as worded, fails on the renders uncontrolled, controlled, uncontrolled: the check
  of the specification reports the second flip, the hook reports nothing at the third
  render, because its ref still holds the mode of the first render.
\<close>

theorem flip_check_counterexample:
  "fst (switch_warning_run None [Undefined, Val True, Undefined])
     = [[], [uncontrolledToControlled_message], []]
   \<and> spec_flip_run [Undefined, Val True, Undefined]
     = [[], [uncontrolledToControlled_message], [controlledToUncontrolled_message]]"
  by (simp add: useControlledSwitchWarning_def spec_flip_check_def warning_def)

lemma switch_warning_run_cell:
  "switch_warning_run (Some c) vs = (out, cell) \<Longrightarrow>
     \<exists>c'. cell = Some c' \<and> isControlledRef c' = isControlledRef c
       \<and> switch_deps c' = (if vs = [] then switch_deps c else not_null (last vs))"
proof (induction vs arbitrary: c out)
  case Nil
  then show ?case by auto
next
  case (Cons v vs)
  obtain msgs c1 where s: "useControlledSwitchWarning v (Some c) = (msgs, c1)"
    by (cases "useControlledSwitchWarning v (Some c)")
  then have c1: "isControlledRef c1 = isControlledRef c" "switch_deps c1 = not_null v"
    by (auto simp add: useControlledSwitchWarning_def Let_def)
  obtain rest where r: "switch_warning_run (Some c1) vs = (rest, cell)"
    using Cons.prems s by (auto split: prod.splits)
  from Cons.IH [OF r] c1 show ?case
    by auto
qed

text \<open>
  C3 (amended): the hook keeps the ownership mode of the first render and never updates
  it. The first render reports nothing. After any renders, the next render reports
  nothing when its mode equals the mode of the render before it or the mode of the first
  render; otherwise it reports exactly one message: uncontrolled-to-controlled when its
  mode is controlled, controlled-to-uncontrolled when it is uncontrolled. So a change
  away from the first mode is reported once, with no repeat while the mode stays, and a
  change back to the first mode is not reported.
\<close>

theorem switch_warning_initial_mode:
  assumes "switch_warning_run None (v # vs) = (out, cell)"
  shows "fst (useControlledSwitchWarning v None) = []
    \<and> (\<exists>c. cell = Some c \<and> isControlledRef c = not_null v
          \<and> switch_deps c = not_null (last (v # vs)))
    \<and> fst (useControlledSwitchWarning x cell) =
        (if not_null x = not_null (last (v # vs)) \<or> not_null x = not_null v then []
         else if not_null x then [uncontrolledToControlled_message]
         else [controlledToUncontrolled_message])"
proof -
  obtain msgs c1 where s: "useControlledSwitchWarning v None = (msgs, c1)"
    by (cases "useControlledSwitchWarning v None")
  then have c1: "isControlledRef c1 = not_null v" "switch_deps c1 = not_null v" "msgs = []"
    by (auto simp add: useControlledSwitchWarning_def Let_def warning_def)
  obtain rest where r: "switch_warning_run (Some c1) vs = (rest, cell)"
    using assms s by (auto split: prod.splits)
  from switch_warning_run_cell [OF r] obtain c where
    c0: "cell = Some c" "isControlledRef c = isControlledRef c1"
        "switch_deps c = (if vs = [] then switch_deps c1 else not_null (last vs))"
    by blast
  with c1 have c: "cell = Some c" "isControlledRef c = not_null v"
       "switch_deps c = not_null (last (v # vs))"
    by simp_all
  have "fst (useControlledSwitchWarning x (Some c)) =
        (if not_null x = switch_deps c \<or> not_null x = isControlledRef c then []
         else if not_null x then [uncontrolledToControlled_message]
         else [controlledToUncontrolled_message])"
    by (auto simp add: useControlledSwitchWarning_def Let_def warning_def)
  with c s c1 show ?thesis
    by simp
qed

theorem switch_warning_initial_mode_witness:
  "fst (useControlledSwitchWarning (Undefined :: bool nullable)
          (snd (switch_warning_run None [Undefined, Val True]))) = []
   \<and> fst (useControlledSwitchWarning (Val True)
          (snd (switch_warning_run None [Undefined, Val True, Undefined])))
       = [uncontrolledToControlled_message]
   \<and> fst (useControlledSwitchWarning (Val True)
          (snd (switch_warning_run None [Undefined, Val True]))) = []"
  using switch_warning_initial_mode [of "Undefined :: bool nullable" "[Val True]"
      "fst (switch_warning_run None [Undefined, Val True])"
      "snd (switch_warning_run None [Undefined, Val True])" Undefined]
    switch_warning_initial_mode [of "Undefined :: bool nullable" "[Val True, Undefined]"
      "fst (switch_warning_run None [Undefined, Val True, Undefined])"
      "snd (switch_warning_run None [Undefined, Val True, Undefined])" "Val True"]
    switch_warning_initial_mode [of "Undefined :: bool nullable" "[Val True]"
      "fst (switch_warning_run None [Undefined, Val True])"
      "snd (switch_warning_run None [Undefined, Val True])" "Val True"]
  by simp

text \<open>
  C6: a render at which the check is evaluated (the first one, and each one where
  \<open>hasOnChange\<close>, \<open>isControlled\<close> or \<open>readOnly\<close> differs from the render before) reports
  the read-only message exactly when the control prop is supplied, \<open>onChange\<close> is
  \<open>undefined\<close> or \<open>null\<close>, and \<open>readOnly\<close> is false; it reports nothing else, and a render
  at which the check is not evaluated reports nothing.
\<close>

theorem readOnly_warning_iff:
  "fst (useOnChangeReadOnlyWarning onChangePropValue controlPropValue readOnly' deps) =
     (if deps \<noteq> Some (Boolean onChangePropValue, not_null controlPropValue, readOnly')
         \<and> (\<exists>v. controlPropValue = Val v)
         \<and> (onChangePropValue = Undefined \<or> onChangePropValue = Null)
         \<and> \<not> readOnly'
      then [readOnly_message] else [])"
  by (cases controlPropValue; cases onChangePropValue)
     (simp_all add: useOnChangeReadOnlyWarning_def warning_def)

theorem readOnly_warning_iff_witness:
  "fst (useOnChangeReadOnlyWarning (Undefined :: unit nullable) (Val True) False None)
     = [readOnly_message]
   \<and> fst (useOnChangeReadOnlyWarning (Undefined :: unit nullable) (Val True) True None) = []
   \<and> fst (useOnChangeReadOnlyWarning (Val ()) (Val True) False None) = []
   \<and> fst (useOnChangeReadOnlyWarning (Undefined :: unit nullable) (Undefined :: bool nullable) False None) = []"
  using readOnly_warning_iff [of "Undefined :: unit nullable" "Val True" False None]
    readOnly_warning_iff [of "Undefined :: unit nullable" "Val True" True None]
    readOnly_warning_iff [of "Val ()" "Val True" False None]
    readOnly_warning_iff [of "Undefined :: unit nullable" "Undefined :: bool nullable" False None]
  by auto

end
